theory Spec2Isabelle
  imports Complex_Main "HOL-Library.Char_ord" "HOL-Library.List_Lexorder"
    "HOL-Library.Product_Lexorder" "HOL-Library.Multiset" "HOL-Library.Sublist"
begin

section \<open>Values, rows and queries (src/index.ts, lines 7-13)\<close>

text \<open>
  A JavaScript \<^verbatim>\<open>number\<close> is an IEEE double. The program never computes with numbers: it
  copies them and tests their truthiness. The finite doubles are embedded in the reals
  (negative zero is identified with zero: both are falsy and they are equal under
  \<^verbatim>\<open>===\<close>); NaN and the two infinities are values of their own.
\<close>

datatype number = Finite real | NaN | PosInfinity | NegInfinity

text \<open>\<^verbatim>\<open>type Value = string | number | null\<close>\<close>

datatype Value = Str string | Num number | Null

text \<open>
  \<^verbatim>\<open>type Row = Record<string, Value>\<close>: an object read by property name. Reading a
  property the object does not have gives \<^verbatim>\<open>undefined\<close>, which is \<open>None\<close> here, so
  every value read from a row is a \<open>Value option\<close>.
\<close>

type_synonym Row = "string \<rightharpoonup> Value"

text \<open>\<^verbatim>\<open>type Query = { sql: string, values: unknown[] }\<close>\<close>

record Query =
  q_sql :: string
  q_values :: "Value option list"

text \<open>
  The operator \<^verbatim>\<open>!!\<close> (ECMAScript ToBoolean) on what a row property can hold:
  \<^verbatim>\<open>undefined\<close>, \<^verbatim>\<open>null\<close>, the empty string, zero and NaN are falsy, everything else is
  truthy.
\<close>

fun toBoolean :: "Value option \<Rightarrow> bool" where
  "toBoolean None = False"
| "toBoolean (Some Null) = False"
| "toBoolean (Some (Str s)) = (s \<noteq> [])"
| "toBoolean (Some (Num (Finite x))) = (x \<noteq> 0)"
| "toBoolean (Some (Num NaN)) = False"
| "toBoolean (Some (Num PosInfinity)) = True"
| "toBoolean (Some (Num NegInfinity)) = True"

section \<open>The structure produced (src/index.ts, lines 58-103)\<close>

text \<open>
  The fields that the program copies from a row keep the row's value, whatever it is at
  run time; the fields it coerces with \<^verbatim>\<open>!!\<close> are booleans. \<^verbatim>\<open>IndexColumn\<close> is the row
  of the index-info query itself.
\<close>

record Column =
  c_name :: "Value option"
  c_type :: "Value option"
  c_notNull :: bool
  c_defaultValue :: "Value option"
  c_primaryKey :: "Value option"

record Index =
  i_name :: "Value option"
  i_unique :: bool
  i_origin :: "Value option"
  i_partial :: bool
  i_columns :: "Row list"

record Table =
  t_schema :: "Value option"
  t_name :: "Value option"
  t_type :: "Value option"
  t_withoutRowid :: bool
  t_strict :: bool
  t_columns :: "Column list"
  t_indexes :: "Index list"

type_synonym Structure = "Table list"

section \<open>Effects: a storage may fail and may change the world\<close>

text \<open>
  \<^verbatim>\<open>type Storage = (query: Query) => Array<Row>\<close> is a JavaScript function: it may throw,
  and it may read and change state outside the program (the connection, the database).
  A computation takes the state of that world and returns either the thrown error or a
  result, together with the new state.
\<close>

type_synonym ('e, 's, 'a) io = "'s \<Rightarrow> ('e + 'a) \<times> 's"

type_synonym ('e, 's) Storage = "Query \<Rightarrow> ('e, 's, Row list) io"

definition return_io :: "'a \<Rightarrow> ('e, 's, 'a) io" where
  "return_io x s = (Inr x, s)"

text \<open>Sequencing: an error thrown by the first computation skips the rest.\<close>

definition bind_io :: "('e, 's, 'a) io \<Rightarrow> ('a \<Rightarrow> ('e, 's, 'b) io) \<Rightarrow> ('e, 's, 'b) io" where
  "bind_io m k s = (case m s of (Inl e, s') \<Rightarrow> (Inl e, s') | (Inr x, s') \<Rightarrow> k x s')"

text \<open>
  \<^verbatim>\<open>Array.prototype.map\<close> with a callback that has effects: the callback runs on the
  elements from left to right, and an error thrown by one call ends the loop.
\<close>

fun map_io :: "('a \<Rightarrow> ('e, 's, 'b) io) \<Rightarrow> 'a list \<Rightarrow> ('e, 's, 'b list) io" where
  "map_io f [] = return_io []"
| "map_io f (x # xs) =
     bind_io (f x) (\<lambda>y. bind_io (map_io f xs) (\<lambda>ys. return_io (y # ys)))"

section \<open>The four queries (src/index.ts, lines 105-180)\<close>

text \<open>
  Modelled from the spec: the template tag \<^verbatim>\<open>sql\<close> of the package sql-template-tag is
  imported by src/index.ts and is not part of the repository. The spec requires the table
  name and schema to be "passed as bound parameters, never string-interpolated"; the tag
  does that: the query text is the literal pieces of the template joined by the
  placeholder \<^verbatim>\<open>?\<close>, and the interpolated expressions become the values, in order.
  (The tag splices an interpolated expression that is itself a query; the expressions
  here are values read from rows, never queries.)
\<close>

fun join_placeholders :: "string list \<Rightarrow> string" where
  "join_placeholders [] = []"
| "join_placeholders [s] = s"
| "join_placeholders (s # ss) = s @ ''?'' @ join_placeholders ss"

definition sql_tag :: "string list \<Rightarrow> Value option list \<Rightarrow> Query" where
  "sql_tag strings vals = \<lparr> q_sql = join_placeholders strings, q_values = vals \<rparr>"

text \<open>
  The table-list query is an object of the module, not the result of a function: this is
  what it holds when the module is loaded (see the section on the module-level object).
\<close>

definition pragmaTableListQuery :: Query where
  \<open>pragmaTableListQuery = sql_tag
    [''\<newline>    select "schema", "name", "type", "wr", "strict"'' @
     ''\<newline>    from pragma_table_list()'' @
     ''\<newline>    where "schema" not like '' @ [CHR 0x27] @ ''temp'' @ [CHR 0x27] @
     '' and "name" not like '' @ [CHR 0x27] @ ''sqlite_%'' @ [CHR 0x27] @
     ''\<newline>    order by "schema", "name"'' @
     ''\<newline>  ''] []\<close>

text \<open>
  The three query builders take an object with the properties \<^verbatim>\<open>name\<close> and \<^verbatim>\<open>schema\<close>;
  here they take the two property values.
\<close>

definition pragmaTableInfoQuery :: "Value option \<Rightarrow> Value option \<Rightarrow> Query" where
  \<open>pragmaTableInfoQuery name schema = sql_tag
    [''\<newline>    select "name", "type", "notnull", "dflt_value", "pk"'' @
     ''\<newline>    from pragma_table_info( '',
     '', '',
     '' )'' @
     ''\<newline>    order by "name"'' @
     ''\<newline>  ''] [name, schema]\<close>

definition pragmaIndexListQuery :: "Value option \<Rightarrow> Value option \<Rightarrow> Query" where
  \<open>pragmaIndexListQuery name schema = sql_tag
    [''\<newline>    select "name", "unique", "origin", "partial"'' @
     ''\<newline>    from pragma_index_list( '',
     '', '',
     '' )'' @
     ''\<newline>    order by "name"'' @
     ''\<newline>  ''] [name, schema]\<close>

definition pragmaIndexInfoQuery :: "Value option \<Rightarrow> Value option \<Rightarrow> Query" where
  \<open>pragmaIndexInfoQuery name schema = sql_tag
    [''\<newline>    select "name" from'' @
     ''\<newline>    pragma_index_info( '',
     '', '',
     '' )'' @
     ''\<newline>    order by "seqno"'' @
     ''\<newline>  ''] [name, schema]\<close>

section \<open>getStructure (src/index.ts, lines 15-56)\<close>

definition exec :: "('e, 's) Storage \<Rightarrow> Query \<Rightarrow> ('e, 's, Row list) io" where
  "exec storage query = storage query"

text \<open>
  The callback of the outer \<^verbatim>\<open>map\<close>: for one row of the table list, first the indexes
  (the index list, and for each index its columns), then the columns, then the record.
\<close>

definition mkIndex :: "('e, 's) Storage \<Rightarrow> Value option \<Rightarrow> Row \<Rightarrow> ('e, 's, Index) io" where
  "mkIndex storage schema index =
     bind_io (exec storage (pragmaIndexInfoQuery (index ''name'') schema)) (\<lambda>columns.
     return_io \<lparr> i_name = index ''name'',
                 i_unique = toBoolean (index ''unique''),
                 i_origin = index ''origin'',
                 i_partial = toBoolean (index ''partial''),
                 i_columns = columns \<rparr>)"

definition mkColumn :: "Row \<Rightarrow> Column" where
  "mkColumn column =
     \<lparr> c_name = column ''name'',
       c_type = column ''type'',
       c_notNull = toBoolean (column ''notnull''),
       c_defaultValue = column ''dflt_value'',
       c_primaryKey = column ''pk'' \<rparr>"

definition mkTable :: "('e, 's) Storage \<Rightarrow> Row \<Rightarrow> ('e, 's, Table) io" where
  "mkTable storage table =
     (let schema = table ''schema'' in
      bind_io (bind_io (exec storage (pragmaIndexListQuery (table ''name'') (table ''schema'')))
                 (map_io (mkIndex storage schema))) (\<lambda>indexes.
      bind_io (bind_io (exec storage (pragmaTableInfoQuery (table ''name'') (table ''schema'')))
                 (map_io (\<lambda>column. return_io (mkColumn column)))) (\<lambda>columns.
      return_io \<lparr> t_schema = schema,
                  t_name = table ''name'',
                  t_type = table ''type'',
                  t_withoutRowid = toBoolean (table ''wr''),
                  t_strict = toBoolean (table ''strict''),
                  t_columns = columns,
                  t_indexes = indexes \<rparr>)))"

definition getStructure :: "('e, 's) Storage \<Rightarrow> ('e, 's, Structure) io" where
  "getStructure storage =
     bind_io (exec storage pragmaTableListQuery) (map_io (mkTable storage))"

section \<open>A storage over an unchanging database\<close>

text \<open>
  A storage that answers every query from a fixed function \<open>f\<close>, never fails and leaves
  the world as it is: a connection to a database that nobody changes.
\<close>

definition pureStorage :: "(Query \<Rightarrow> Row list) \<Rightarrow> ('e, 's) Storage" where
  "pureStorage f query s = (Inr (f query), s)"

text \<open>
  What \<open>getStructure\<close> assembles over such a storage, written without effects. These two
  functions are not in the source: lemma \<open>getStructure_pure\<close> proves that they are what
  \<open>mkIndex\<close>, \<open>mkTable\<close> and \<open>getStructure\<close> compute, and the proofs go through them.
\<close>

definition indexOf :: "(Query \<Rightarrow> Row list) \<Rightarrow> Value option \<Rightarrow> Row \<Rightarrow> Index" where
  "indexOf f schema index =
     \<lparr> i_name = index ''name'',
       i_unique = toBoolean (index ''unique''),
       i_origin = index ''origin'',
       i_partial = toBoolean (index ''partial''),
       i_columns = f (pragmaIndexInfoQuery (index ''name'') schema) \<rparr>"

definition tableOf :: "(Query \<Rightarrow> Row list) \<Rightarrow> Row \<Rightarrow> Table" where
  "tableOf f table =
     \<lparr> t_schema = table ''schema'',
       t_name = table ''name'',
       t_type = table ''type'',
       t_withoutRowid = toBoolean (table ''wr''),
       t_strict = toBoolean (table ''strict''),
       t_columns = map mkColumn (f (pragmaTableInfoQuery (table ''name'') (table ''schema''))),
       t_indexes = map (indexOf f (table ''schema''))
                     (f (pragmaIndexListQuery (table ''name'') (table ''schema''))) \<rparr>"

text \<open>
  The values of a row property that \<^verbatim>\<open>!!\<close> turns into \<^verbatim>\<open>false\<close>: a missing property,
  \<^verbatim>\<open>null\<close>, the empty string, the number zero and NaN.
\<close>

definition falsy :: "Value option set" where
  "falsy = {None, Some Null, Some (Str []), Some (Num (Finite 0)), Some (Num NaN)}"

text \<open>A storage whose only table reports its without-rowid flag as NaN.\<close>

definition nan_flag_row :: Row where
  "nan_flag_row = [''schema'' \<mapsto> Str ''main'', ''name'' \<mapsto> Str ''t'', ''type'' \<mapsto> Str ''table'',
                   ''wr'' \<mapsto> Num NaN, ''strict'' \<mapsto> Num (Finite 1)]"

definition nan_flag_rows :: "Query \<Rightarrow> Row list" where
  "nan_flag_rows query = (if query = pragmaTableListQuery then [nan_flag_row] else [])"

section \<open>The database behind the storage\<close>

text \<open>
  Modelled from the spec: the database engine that runs the four SQL statements is not
  under src/. The spec's Catalog Reader says what each statement returns: the table list
  without the objects of the temporary schema and without the names that match the
  engine's reserved prefix, ordered by (schema, name); the columns of a table ordered by
  column name; the indexes of a table ordered by index name; the columns of an index
  ordered by the index's key sequence number. The engine below does that by reading the
  text that the program sends: it runs the \<^verbatim>\<open>where\<close> and \<^verbatim>\<open>order by\<close> clauses that the
  text has, and no other.

  What the engine's table-valued functions \<^verbatim>\<open>pragma_table_list\<close>, \<^verbatim>\<open>pragma_table_info\<close>,
  \<^verbatim>\<open>pragma_index_list\<close> and \<^verbatim>\<open>pragma_index_info\<close> yield is the catalog: it is a
  parameter here, a list of entries in whatever order the engine produces them. An entry
  has the columns that the queries mention. The columns that a query filters or sorts on
  have the type that the source declares for them (\<^verbatim>\<open>schema: string\<close>, \<^verbatim>\<open>name: string\<close>;
  \<^verbatim>\<open>seqno\<close> is an integer); the columns that are only selected hold any value, as the
  connection delivers it.
\<close>

record table_list_entry =
  tl_schema :: string
  tl_name :: string
  tl_type :: Value
  tl_wr :: Value
  tl_strict :: Value

record table_info_entry =
  ti_name :: string
  ti_type :: Value
  ti_notnull :: Value
  ti_dflt_value :: Value
  ti_pk :: Value

record index_list_entry =
  il_name :: string
  il_unique :: Value
  il_origin :: Value
  il_partial :: Value

record index_info_entry =
  ii_seqno :: int
  ii_name :: Value

record database =
  pragma_table_list :: "table_list_entry list"
  pragma_table_info :: "Value option \<Rightarrow> Value option \<Rightarrow> table_info_entry list"
  pragma_index_list :: "Value option \<Rightarrow> Value option \<Rightarrow> index_list_entry list"
  pragma_index_info :: "Value option \<Rightarrow> Value option \<Rightarrow> index_info_entry list"
  other_queries :: "Query \<Rightarrow> Row list"

text \<open>
  The SQL operator \<^verbatim>\<open>LIKE\<close> of the engine, pattern first: \<^verbatim>\<open>%\<close> matches any run of
  characters, \<^verbatim>\<open>_\<close> matches one character, and any other character matches itself
  without regard to the case of ASCII letters.
\<close>

definition ascii_lower :: "char \<Rightarrow> char" where
  \<comment> \<open>an upper-case ASCII letter plus 32, which sets bit 5 of its code\<close>
  "ascii_lower c =
     (if CHR ''A'' \<le> c \<and> c \<le> CHR ''Z''
      then (case c of Char b0 b1 b2 b3 b4 b5 b6 b7 \<Rightarrow> Char b0 b1 b2 b3 b4 True b6 b7)
      else c)"

fun like :: "string \<Rightarrow> string \<Rightarrow> bool" where
  "like [] [] = True"
| "like [] (c # cs) = False"
| "like (p # ps) [] = (p = CHR ''%'' \<and> like ps [])"
| "like (p # ps) (c # cs) =
     (if p = CHR ''%'' then like ps (c # cs) \<or> like (p # ps) cs
      else (p = CHR ''_'' \<or> ascii_lower p = ascii_lower c) \<and> like ps cs)"

text \<open>
  An entry as a row: its columns under their names. For an index-info entry,
  \<open>index_info_row\<close> has only the column \<^verbatim>\<open>name\<close>; \<open>index_info_columns\<close> below has
  \<^verbatim>\<open>seqno\<close> too.
\<close>

definition table_list_row :: "table_list_entry \<Rightarrow> Row" where
  "table_list_row e =
     [''schema'' \<mapsto> Str (tl_schema e), ''name'' \<mapsto> Str (tl_name e), ''type'' \<mapsto> tl_type e,
      ''wr'' \<mapsto> tl_wr e, ''strict'' \<mapsto> tl_strict e]"

definition table_info_row :: "table_info_entry \<Rightarrow> Row" where
  "table_info_row e =
     [''name'' \<mapsto> Str (ti_name e), ''type'' \<mapsto> ti_type e, ''notnull'' \<mapsto> ti_notnull e,
      ''dflt_value'' \<mapsto> ti_dflt_value e, ''pk'' \<mapsto> ti_pk e]"

definition index_list_row :: "index_list_entry \<Rightarrow> Row" where
  "index_list_row e =
     [''name'' \<mapsto> Str (il_name e), ''unique'' \<mapsto> il_unique e, ''origin'' \<mapsto> il_origin e,
      ''partial'' \<mapsto> il_partial e]"

definition index_info_row :: "index_info_entry \<Rightarrow> Row" where
  "index_info_row e = [''name'' \<mapsto> ii_name e]"

text \<open>
  The engine reads the text of a statement. The tokens: a word (a keyword or a function
  name, which the engine reads without regard to case), a name in double quotes, a text
  literal in single quotes, and any other character that is not white space.
\<close>

datatype token = Word string | Quoted string | Literal string | Punct char

datatype lex_state = Between | InWord string | InQuoted string | InLiteral string

definition is_space :: "char \<Rightarrow> bool" where
  "is_space c = (c = CHR '' '' \<or> c = CHR 0x0A \<or> c = CHR 0x09 \<or> c = CHR 0x0D)"

definition in_range :: "char \<Rightarrow> char \<Rightarrow> char \<Rightarrow> bool" where
  "in_range lo hi c = (lo \<le> c \<and> c \<le> hi)"

definition is_word_char :: "char \<Rightarrow> bool" where
  "is_word_char c =
     (c = CHR ''_'' \<or> in_range (CHR ''0'') (CHR ''9'') c \<or>
      in_range (CHR ''A'') (CHR ''Z'') c \<or> in_range (CHR ''a'') (CHR ''z'') c)"

fun lex :: "lex_state \<Rightarrow> string \<Rightarrow> token list option" where
  "lex Between [] = Some []"
| "lex (InWord w) [] = Some [Word (map ascii_lower (rev w))]"
| "lex (InQuoted q) [] = None"
| "lex (InLiteral l) [] = None"
| "lex Between (c # cs) =
     (if is_space c then lex Between cs
      else if c = CHR 0x22 then lex (InQuoted []) cs
      else if c = CHR 0x27 then lex (InLiteral []) cs
      else if is_word_char c then lex (InWord [c]) cs
      else map_option ((#) (Punct c)) (lex Between cs))"
| "lex (InWord w) (c # cs) =
     (if is_word_char c then lex (InWord (c # w)) cs
      else map_option ((#) (Word (map ascii_lower (rev w))))
        (if is_space c then lex Between cs
         else if c = CHR 0x22 then lex (InQuoted []) cs
         else if c = CHR 0x27 then lex (InLiteral []) cs
         else map_option ((#) (Punct c)) (lex Between cs)))"
| "lex (InQuoted q) (c # cs) =
     (if c = CHR 0x22 then map_option ((#) (Quoted (rev q))) (lex Between cs)
      else lex (InQuoted (c # q)) cs)"
| "lex (InLiteral l) (c # cs) =
     (if c = CHR 0x27 then map_option ((#) (Literal (rev l))) (lex Between cs)
      else lex (InLiteral (c # l)) cs)"

text \<open>
  The statements the engine understands here:
  \<^verbatim>\<open>select "c", ... from f(?, ...) [where "c" [not] like 'p' [and ...]] [order by "c", ...]\<close>.
  A statement has its select list, the table-valued function it reads with the number of
  its placeholders, the conditions of its \<^verbatim>\<open>where\<close> clause (column, negated or not,
  pattern) and the columns of its \<^verbatim>\<open>order by\<close> clause; a clause that the text does not
  have is the empty list.
\<close>

record statement =
  st_select :: "string list"
  st_from :: string
  st_args :: nat
  st_where :: "(string \<times> bool \<times> string) list"
  st_order :: "string list"

fun expect_word :: "string \<Rightarrow> token list \<Rightarrow> token list option" where
  "expect_word w (Word v # ts) = (if v = w then Some ts else None)"
| "expect_word w ts = None"

fun quoted_list :: "token list \<Rightarrow> (string list \<times> token list) option" where
  "quoted_list (Quoted n # Punct c # ts) =
     (if c = CHR '','' then map_option (\<lambda>(ns, rest). (n # ns, rest)) (quoted_list ts)
      else Some ([n], Punct c # ts))"
| "quoted_list (Quoted n # ts) = Some ([n], ts)"
| "quoted_list ts = None"

fun placeholders :: "token list \<Rightarrow> (nat \<times> token list) option" where
  "placeholders (Punct a # Punct b # ts) =
     (if a = CHR ''?'' \<and> b = CHR '','' then map_option (\<lambda>(n, rest). (Suc n, rest)) (placeholders ts)
      else if a = CHR ''?'' \<and> b = CHR '')'' then Some (1, ts)
      else None)"
| "placeholders ts = None"

fun from_clause :: "token list \<Rightarrow> ((string \<times> nat) \<times> token list) option" where
  "from_clause (Word f # Punct l # Punct r # ts) =
     (if l = CHR ''('' \<and> r = CHR '')'' then Some ((f, 0), ts)
      else if l = CHR ''('' then map_option (\<lambda>(n, rest). ((f, n), rest)) (placeholders (Punct r # ts))
      else None)"
| "from_clause ts = None"

fun conditions :: "token list \<Rightarrow> ((string \<times> bool \<times> string) list \<times> token list) option" where
  "conditions (Quoted c # Word w # Literal p # Word a # ts) =
     (if w \<noteq> ''like'' then None
      else if a = ''and'' then map_option (\<lambda>(cs, rest). ((c, False, p) # cs, rest)) (conditions ts)
      else Some ([(c, False, p)], Word a # ts))"
| "conditions (Quoted c # Word w # Literal p # ts) =
     (if w = ''like'' then Some ([(c, False, p)], ts) else None)"
| "conditions (Quoted c # Word n # Word w # Literal p # Word a # ts) =
     (if n \<noteq> ''not'' \<or> w \<noteq> ''like'' then None
      else if a = ''and'' then map_option (\<lambda>(cs, rest). ((c, True, p) # cs, rest)) (conditions ts)
      else Some ([(c, True, p)], Word a # ts))"
| "conditions (Quoted c # Word n # Word w # Literal p # ts) =
     (if n = ''not'' \<and> w = ''like'' then Some ([(c, True, p)], ts) else None)"
| "conditions ts = None"

fun where_clause :: "token list \<Rightarrow> ((string \<times> bool \<times> string) list \<times> token list) option" where
  "where_clause (Word w # ts) = (if w = ''where'' then conditions ts else Some ([], Word w # ts))"
| "where_clause ts = Some ([], ts)"

fun order_clause :: "token list \<Rightarrow> (string list \<times> token list) option" where
  "order_clause (Word w # Word b # ts) =
     (if w = ''order'' \<and> b = ''by'' then quoted_list ts else Some ([], Word w # Word b # ts))"
| "order_clause ts = Some ([], ts)"

definition parse :: "string \<Rightarrow> statement option" where
  "parse text =
     Option.bind (lex Between text) (\<lambda>ts.
     Option.bind (expect_word ''select'' ts) (\<lambda>ts.
     Option.bind (quoted_list ts) (\<lambda>(sel, ts).
     Option.bind (expect_word ''from'' ts) (\<lambda>ts.
     Option.bind (from_clause ts) (\<lambda>((f, n), ts).
     Option.bind (where_clause ts) (\<lambda>(conds, ts).
     Option.bind (order_clause ts) (\<lambda>(ord, ts).
     if ts = [] then
       Some \<lparr> st_select = sel, st_from = f, st_args = n, st_where = conds, st_order = ord \<rparr>
     else None)))))))"

text \<open>
  The order of \<^verbatim>\<open>order by\<close>: NULL first, then numbers by value, then text in byte order
  (the engine's default collation). The engine has no NaN; it stores NULL for it.
\<close>

fun order_key :: "Value option \<Rightarrow> nat \<times> real \<times> string" where
  "order_key None = (0, 0, [])"
| "order_key (Some Null) = (0, 0, [])"
| "order_key (Some (Num NaN)) = (0, 0, [])"
| "order_key (Some (Num NegInfinity)) = (1, 0, [])"
| "order_key (Some (Num (Finite x))) = (2, x, [])"
| "order_key (Some (Num PosInfinity)) = (3, 0, [])"
| "order_key (Some (Str s)) = (4, 0, s)"

text \<open>
  A condition on a row: \<^verbatim>\<open>like\<close> on text; on NULL it is not true, negated or not. What
  the engine does on a number (it matches the number's text) is not modelled: \<open>None\<close>.
\<close>

fun holds :: "Row \<Rightarrow> string \<times> bool \<times> string \<Rightarrow> bool option" where
  "holds row (c, negated, p) =
     (case row c of
        Some (Str s) \<Rightarrow> Some (like p s \<noteq> negated)
      | Some Null \<Rightarrow> Some False
      | _ \<Rightarrow> None)"

text \<open>
  The table-valued functions of the catalog, by name and bound arguments, with their
  columns. The rows of \<^verbatim>\<open>pragma_index_info\<close> have the column \<^verbatim>\<open>seqno\<close> besides the
  selected \<^verbatim>\<open>name\<close>.
\<close>

definition index_info_columns :: "index_info_entry \<Rightarrow> Row" where
  "index_info_columns e =
     [''seqno'' \<mapsto> Num (Finite (of_int (ii_seqno e))), ''name'' \<mapsto> ii_name e]"

definition relation ::
  "database \<Rightarrow> string \<Rightarrow> Value option list \<Rightarrow> (string list \<times> Row list) option" where
  "relation db f args =
     (if f = ''pragma_table_list'' then
        (case args of
           [] \<Rightarrow> Some ([''schema'', ''name'', ''type'', ''wr'', ''strict''],
                       map table_list_row (pragma_table_list db))
         | _ \<Rightarrow> None)
      else if f = ''pragma_table_info'' then
        (case args of
           [name, schema] \<Rightarrow> Some ([''name'', ''type'', ''notnull'', ''dflt_value'', ''pk''],
                                  map table_info_row (pragma_table_info db name schema))
         | _ \<Rightarrow> None)
      else if f = ''pragma_index_list'' then
        (case args of
           [name, schema] \<Rightarrow> Some ([''name'', ''unique'', ''origin'', ''partial''],
                                  map index_list_row (pragma_index_list db name schema))
         | _ \<Rightarrow> None)
      else if f = ''pragma_index_info'' then
        (case args of
           [name, schema] \<Rightarrow> Some ([''seqno'', ''name''],
                                  map index_info_columns (pragma_index_info db name schema))
         | _ \<Rightarrow> None)
      else None)"

text \<open>
  Running a statement: the rows of the function, those that satisfy every condition,
  sorted on the columns of \<^verbatim>\<open>order by\<close> (\<open>sort_key\<close> keeps rows with equal keys in
  catalog order, so a statement with no \<^verbatim>\<open>order by\<close> returns the rows in catalog order),
  each cut down to the select list. A statement that names a column the function does not
  have, or binds another number of values than it has placeholders, is not run.
\<close>

definition run :: "database \<Rightarrow> statement \<Rightarrow> Value option list \<Rightarrow> Row list option" where
  "run db st vals =
     (if length vals \<noteq> st_args st then None
      else case relation db (st_from st) vals of
        None \<Rightarrow> None
      | Some (cols, rows) \<Rightarrow>
          if \<not> list_all (\<lambda>c. c \<in> set cols)
                 (st_select st @ map fst (st_where st) @ st_order st) then None
          else if \<not> list_all (\<lambda>row. list_all (\<lambda>c. holds row c \<noteq> None) (st_where st)) rows
          then None
          else Some (map (\<lambda>row. row |` set (st_select st))
                 (sort_key (\<lambda>row. map (\<lambda>c. order_key (row c)) (st_order st))
                   (filter (\<lambda>row. list_all (\<lambda>c. holds row c = Some True) (st_where st))
                     rows))))"

text \<open>
  The engine answers a query from its text and its bound values. What it answers to a
  query that it cannot read or run as above is left to the parameter \<open>other_queries\<close>.
\<close>

definition sqlite :: "database \<Rightarrow> Query \<Rightarrow> Row list" where
  "sqlite db query =
     (case Option.bind (parse (q_sql query)) (\<lambda>st. run db st (q_values query)) of
        Some rows \<Rightarrow> rows
      | None \<Rightarrow> other_queries db query)"

text \<open>
  What the four statements of the source compute on the catalog, written directly: the
  filter of the \<^verbatim>\<open>where\<close> clause, the sort of the \<^verbatim>\<open>order by\<close> clause, the
  projection of the select list. These four functions are not what the engine runs: the
  engine reads the text of the query, and lemma \<open>sqlite_simps\<close> proves that on the four
  texts of the source it computes them.
\<close>

definition select_table_list :: "database \<Rightarrow> Row list" where
  "select_table_list db =
     map table_list_row
       (sort_key (\<lambda>e. (tl_schema e, tl_name e))
         (filter (\<lambda>e. \<not> like ''temp'' (tl_schema e) \<and> \<not> like ''sqlite_%'' (tl_name e))
           (pragma_table_list db)))"

definition select_table_info :: "database \<Rightarrow> Value option \<Rightarrow> Value option \<Rightarrow> Row list" where
  "select_table_info db name schema =
     map table_info_row (sort_key ti_name (pragma_table_info db name schema))"

definition select_index_list :: "database \<Rightarrow> Value option \<Rightarrow> Value option \<Rightarrow> Row list" where
  "select_index_list db name schema =
     map index_list_row (sort_key il_name (pragma_index_list db name schema))"

definition select_index_info :: "database \<Rightarrow> Value option \<Rightarrow> Value option \<Rightarrow> Row list" where
  "select_index_info db name schema =
     map index_info_row (sort_key ii_seqno (pragma_index_info db name schema))"

section \<open>Observing the calls of a storage\<close>

text \<open>
  A storage wrapped so that every call is written to a log, with the query and what the
  storage answered (rows or a thrown error). The log is part of the state.
\<close>

type_synonym 'e log = "(Query \<times> ('e + Row list)) list"

definition traced :: "('e, 's) Storage \<Rightarrow> ('e, 's \<times> 'e log) Storage" where
  "traced storage query =
     (\<lambda>(s, calls). case storage query s of (r, s') \<Rightarrow> (r, (s', calls @ [(query, r)])))"

fun succeeded :: "Query \<times> ('e + Row list) \<Rightarrow> bool" where
  "succeeded (q, Inr rows) = True"
| "succeeded (q, Inl e) = False"

section \<open>The module-level query object\<close>

text \<open>
  In the source \<^verbatim>\<open>pragmaTableListQuery\<close> is one object, made when the module is loaded,
  and every call of \<^verbatim>\<open>getStructure\<close> hands that same object to the storage. A storage can
  write to the object it is given (\<^verbatim>\<open>values\<close> is an array), so what a call sends is what
  the object holds at that moment. The three builders make a new object at every call,
  and the program does not read it again: a write to it does not show.

  The definition \<open>pragmaTableListQuery\<close> above is what the object holds when the module
  is loaded, and \<open>getStructure\<close> above is a call made while the object holds that. Here
  the content of the object is part of the world, the storage is told which object it is
  given, and \<open>getStructure_ref\<close> is a call of \<^verbatim>\<open>getStructure\<close> at any moment.
\<close>

datatype query_ref = ModuleObject | NewObject Query

type_synonym 's world = "Query \<times> 's"

fun deref :: "'s world \<Rightarrow> query_ref \<Rightarrow> Query" where
  "deref w ModuleObject = fst w"
| "deref w (NewObject query) = query"

type_synonym ('e, 's) RefStorage = "query_ref \<Rightarrow> ('e, 's world, Row list) io"

definition getStructure_ref :: "('e, 's) RefStorage \<Rightarrow> ('e, 's world, Structure) io" where
  "getStructure_ref storage =
     bind_io (storage ModuleObject) (map_io (mkTable (\<lambda>query. storage (NewObject query))))"

text \<open>
  A storage that does not look at which object it is given, only at what the object
  holds. Over such a storage a call made while the module-level object holds its first
  content is \<open>getStructure\<close> (lemma \<open>getStructure_ref_first_call\<close>).
\<close>

definition by_content :: "('e, 's world) Storage \<Rightarrow> ('e, 's) RefStorage" where
  "by_content storage r w = storage (deref w r) w"



section \<open>Predicates used in the proofs\<close>

text \<open>
  A traced computation \<open>m'\<close> tracks \<open>m\<close> when it returns what \<open>m\<close> returns, leaves the
  state that \<open>m\<close> leaves, and adds to the log calls that all succeeded if the result is
  a value, and that all succeeded but the last, which threw the returned error, if the
  result is an error.
\<close>

definition outcome_logged :: "('e + 'a) \<Rightarrow> 'e log \<Rightarrow> bool" where
  "outcome_logged r new =
     (case r of
        Inr x \<Rightarrow> list_all succeeded new
      | Inl e \<Rightarrow> new \<noteq> [] \<and> list_all succeeded (butlast new) \<and> snd (last new) = Inl e)"

definition tracks :: "('e, 's \<times> 'e log, 'a) io \<Rightarrow> ('e, 's, 'a) io \<Rightarrow> bool" where
  "tracks m' m =
     (\<forall>s calls. \<exists>new. m' (s, calls) = (fst (m s), (snd (m s), calls @ new)) \<and>
        outcome_logged (fst (m s)) new)"

text \<open>
  Over an unchanging storage a traced computation emits the calls \<open>tr\<close> with the result
  \<open>x\<close>, whatever the state and the log before.
\<close>

definition emits :: "('e, 's \<times> 'e log, 'a) io \<Rightarrow> 'a \<Rightarrow> 'e log \<Rightarrow> bool" where
  "emits m x tr = (\<forall>s calls. m (s, calls) = (Inr x, (s, calls @ tr)))"

definition answered :: "(Query \<Rightarrow> Row list) \<Rightarrow> Query \<Rightarrow> Query \<times> ('e + Row list)" where
  "answered f query = (query, Inr (f query))"

definition table_calls :: "(Query \<Rightarrow> Row list) \<Rightarrow> Row \<Rightarrow> Query list" where
  "table_calls f table =
     pragmaIndexListQuery (table ''name'') (table ''schema'') #
     map (\<lambda>index. pragmaIndexInfoQuery (index ''name'') (table ''schema''))
       (f (pragmaIndexListQuery (table ''name'') (table ''schema''))) @
     [pragmaTableInfoQuery (table ''name'') (table ''schema'')]"

definition all_calls :: "(Query \<Rightarrow> Row list) \<Rightarrow> Query list" where
  "all_calls f = pragmaTableListQuery # concat (map (table_calls f) (f pragmaTableListQuery))"


section \<open>Example data\<close>

text \<open>
  A catalog with one user table
  \<^verbatim>\<open>t(name text not null, id integer not null, note text, primary key (name, id))\<close> and an
  index on \<^verbatim>\<open>(name, id)\<close>, a table in the temporary schema and an internal table of the
  engine. The index-info entries are listed out of key order.
\<close>

definition example_db :: database where
  "example_db =
     \<lparr> pragma_table_list =
         [\<lparr> tl_schema = ''main'', tl_name = ''t'', tl_type = Str ''table'',
            tl_wr = Num (Finite 0), tl_strict = Num (Finite 0) \<rparr>,
          \<lparr> tl_schema = ''temp'', tl_name = ''scratch'', tl_type = Str ''table'',
            tl_wr = Num (Finite 0), tl_strict = Num (Finite 0) \<rparr>,
          \<lparr> tl_schema = ''main'', tl_name = ''sqlite_sequence'', tl_type = Str ''table'',
            tl_wr = Num (Finite 0), tl_strict = Num (Finite 0) \<rparr>],
       pragma_table_info = (\<lambda>name schema.
         if name = Some (Str ''t'') \<and> schema = Some (Str ''main'')
         then [\<lparr> ti_name = ''name'', ti_type = Str ''text'', ti_notnull = Num (Finite 1),
                  ti_dflt_value = Null, ti_pk = Num (Finite 1) \<rparr>,
               \<lparr> ti_name = ''id'', ti_type = Str ''integer'', ti_notnull = Num (Finite 1),
                  ti_dflt_value = Null, ti_pk = Num (Finite 2) \<rparr>,
               \<lparr> ti_name = ''note'', ti_type = Str ''text'', ti_notnull = Num (Finite 0),
                  ti_dflt_value = Null, ti_pk = Num (Finite 0) \<rparr>]
         else []),
       pragma_index_list = (\<lambda>name schema.
         if name = Some (Str ''t'') \<and> schema = Some (Str ''main'')
         then [\<lparr> il_name = ''t_name_id'', il_unique = Num (Finite 1), il_origin = Str ''c'',
                  il_partial = Num (Finite 0) \<rparr>]
         else []),
       pragma_index_info = (\<lambda>name schema.
         if name = Some (Str ''t_name_id'') \<and> schema = Some (Str ''main'')
         then [\<lparr> ii_seqno = 1, ii_name = Str ''id'' \<rparr>, \<lparr> ii_seqno = 0, ii_name = Str ''name'' \<rparr>]
         else []),
       other_queries = (\<lambda>query. []) \<rparr>"

definition example_index :: Index where
  "example_index =
     \<lparr> i_name = Some (Str ''t_name_id''), i_unique = True, i_origin = Some (Str ''c''),
       i_partial = False,
       i_columns = [[''name'' \<mapsto> Str ''name''], [''name'' \<mapsto> Str ''id'']] \<rparr>"

definition example_table :: Table where
  "example_table =
     \<lparr> t_schema = Some (Str ''main''), t_name = Some (Str ''t''), t_type = Some (Str ''table''),
       t_withoutRowid = False, t_strict = False,
       t_columns =
         [\<lparr> c_name = Some (Str ''id''), c_type = Some (Str ''integer''), c_notNull = True,
            c_defaultValue = Some Null, c_primaryKey = Some (Num (Finite 2)) \<rparr>,
          \<lparr> c_name = Some (Str ''name''), c_type = Some (Str ''text''), c_notNull = True,
            c_defaultValue = Some Null, c_primaryKey = Some (Num (Finite 1)) \<rparr>,
          \<lparr> c_name = Some (Str ''note''), c_type = Some (Str ''text''), c_notNull = False,
            c_defaultValue = Some Null, c_primaryKey = Some (Num (Finite 0)) \<rparr>],
       t_indexes = [example_index] \<rparr>"

text \<open>The same catalog with the columns of every table declared in the opposite order.\<close>

definition example_redeclared :: "Value option \<Rightarrow> Value option \<Rightarrow> table_info_entry list" where
  "example_redeclared name schema = rev (pragma_table_info example_db name schema)"

text \<open>
  A storage that answers from the example catalog and throws on the column-list query of
  table \<^verbatim>\<open>t\<close>, and the calls that \<open>getStructure\<close> makes to it. Its state counts the calls.
\<close>

definition failing_storage :: "(string, nat) Storage" where
  "failing_storage query n =
     (if query = pragmaTableInfoQuery (Some (Str ''t'')) (Some (Str ''main''))
      then (Inl ''disk I/O error'', Suc n)
      else (Inr (sqlite example_db query), Suc n))"

definition failing_calls :: "string log" where
  "failing_calls =
     [(pragmaTableListQuery, Inr (select_table_list example_db)),
      (pragmaIndexListQuery (Some (Str ''t'')) (Some (Str ''main'')),
       Inr (select_index_list example_db (Some (Str ''t'')) (Some (Str ''main'')))),
      (pragmaIndexInfoQuery (Some (Str ''t_name_id'')) (Some (Str ''main'')),
       Inr (select_index_info example_db (Some (Str ''t_name_id'')) (Some (Str ''main'')))),
      (pragmaTableInfoQuery (Some (Str ''t'')) (Some (Str ''main'')), Inl ''disk I/O error'')]"





section \<open>Sequencing lemmas\<close>

lemma bind_return [simp]: "bind_io (return_io x) k = k x"
  by (rule ext) (simp add: bind_io_def return_io_def)

lemma exec_pure: "exec (pureStorage f) q = return_io (f q)"
  by (rule ext) (simp add: exec_def pureStorage_def return_io_def)

lemma map_io_pure:
  assumes "\<And>x. g x = return_io (h x)"
  shows "map_io g xs = return_io (map h xs)"
  by (induction xs) (simp_all add: assms)

lemma mkIndex_pure: "mkIndex (pureStorage f) schema index = return_io (indexOf f schema index)"
  by (simp add: mkIndex_def indexOf_def exec_pure)

lemma mkTable_pure: "mkTable (pureStorage f) table = return_io (tableOf f table)"
  by (simp add: mkTable_def tableOf_def exec_pure Let_def
      map_io_pure [where h = mkColumn] map_io_pure [OF mkIndex_pure])

lemma getStructure_pure:
  "getStructure (pureStorage f) s = (Inr (map (tableOf f) (f pragmaTableListQuery)), s)"
  by (simp add: getStructure_def exec_pure map_io_pure [OF mkTable_pure] return_io_def)

lemma list_all2_map_right: "list_all2 P xs (map g xs) = (\<forall>x\<in>set xs. P x (g x))"
  by (induction xs) simp_all

lemma nan_flag_rows_simps:
  "nan_flag_rows pragmaTableListQuery = [nan_flag_row]"
  "nan_flag_rows (pragmaTableInfoQuery n s) = []"
  "nan_flag_rows (pragmaIndexListQuery n s) = []"
  by (simp_all add: nan_flag_rows_def pragmaTableListQuery_def pragmaTableInfoQuery_def
      pragmaIndexListQuery_def sql_tag_def)

lemma toBoolean_falsy: "toBoolean v = (v \<notin> falsy)"
  by (cases v rule: toBoolean.cases) (simp_all add: falsy_def)

section \<open>Flag coercion\<close>

text \<open>
  C4. Over an unchanging database \<open>getStructure\<close> returns one Table for each row of the
  table list, one Column for each row of that table's column list and one Index for each
  row of its index list, and each of the five flags (withoutRowid, strict, notNull, unique,
  partial) is the \<^verbatim>\<open>!!\<close> of the row's encoded field. On an encoded number \<open>x\<close> (the
  integers of the catalog, and any finite number) that is \<open>x \<noteq> 0\<close>: the value 2 gives
  true exactly as 1 does, and 0 gives false.
\<close>

theorem flags_nonzero_is_true:
  "\<exists>ts. getStructure (pureStorage f) s = (Inr ts, s) \<and>
     list_all2 (\<lambda>table t.
         t_withoutRowid t = toBoolean (table ''wr'') \<and>
         t_strict t = toBoolean (table ''strict'') \<and>
         list_all2 (\<lambda>column c. c_notNull c = toBoolean (column ''notnull''))
           (f (pragmaTableInfoQuery (table ''name'') (table ''schema''))) (t_columns t) \<and>
         list_all2 (\<lambda>index i. i_unique i = toBoolean (index ''unique'') \<and>
                              i_partial i = toBoolean (index ''partial''))
           (f (pragmaIndexListQuery (table ''name'') (table ''schema''))) (t_indexes t))
       (f pragmaTableListQuery) ts \<and>
     (\<forall>x. toBoolean (Some (Num (Finite x))) = (x \<noteq> 0)) \<and>
     toBoolean (Some (Num (Finite 2))) = toBoolean (Some (Num (Finite 1))) \<and>
     toBoolean (Some (Num (Finite 1))) \<and> \<not> toBoolean (Some (Num (Finite 0)))"
  by (simp add: getStructure_pure list_all2_map_right tableOf_def indexOf_def mkColumn_def)

text \<open>
  C10, as the claim states it, fails: a flag that the storage delivers as NaN, a value of
  type \<^verbatim>\<open>number\<close> that is neither zero, nor \<^verbatim>\<open>null\<close>, nor the empty string, coerces to
  false.
\<close>

theorem nan_flag_is_false:
  "fst (getStructure (pureStorage nan_flag_rows :: (unit, unit) Storage) ()) =
     Inr [\<lparr> t_schema = Some (Str ''main''), t_name = Some (Str ''t''),
            t_type = Some (Str ''table''), t_withoutRowid = False, t_strict = True,
            t_columns = [], t_indexes = [] \<rparr>] \<and>
   nan_flag_rows pragmaTableListQuery = [nan_flag_row] \<and>
   nan_flag_row ''wr'' = Some (Num NaN) \<and>
   Num NaN \<noteq> Num (Finite 0) \<and> Num NaN \<noteq> Null \<and> Num NaN \<noteq> Str []"
  by (simp add: getStructure_pure nan_flag_rows_simps tableOf_def nan_flag_row_def)

text \<open>
  C10, amended. Over an unchanging database each of the five flags of the result is false
  exactly when the row's field is falsy. A field delivered as \<^verbatim>\<open>null\<close> is falsy; one
  delivered as a nonempty string, the string "0" included, is not; and the delivered
  values that are falsy are the number 0, NaN, \<^verbatim>\<open>null\<close> and the empty string, no other.
\<close>

theorem flags_false_iff_falsy:
  "\<exists>ts. getStructure (pureStorage f) s = (Inr ts, s) \<and>
     list_all2 (\<lambda>table t.
         (\<not> t_withoutRowid t) = (table ''wr'' \<in> falsy) \<and>
         (\<not> t_strict t) = (table ''strict'' \<in> falsy) \<and>
         list_all2 (\<lambda>column c. (\<not> c_notNull c) = (column ''notnull'' \<in> falsy))
           (f (pragmaTableInfoQuery (table ''name'') (table ''schema''))) (t_columns t) \<and>
         list_all2 (\<lambda>index i. (\<not> i_unique i) = (index ''unique'' \<in> falsy) \<and>
                              (\<not> i_partial i) = (index ''partial'' \<in> falsy))
           (f (pragmaIndexListQuery (table ''name'') (table ''schema''))) (t_indexes t))
       (f pragmaTableListQuery) ts \<and>
     Some Null \<in> falsy \<and> Some (Str ''0'') \<notin> falsy \<and>
     (\<forall>c cs. Some (Str (c # cs)) \<notin> falsy) \<and>
     (\<forall>v. (Some v \<in> falsy) = (v = Num (Finite 0) \<or> v = Num NaN \<or> v = Null \<or> v = Str []))"
  by (simp add: getStructure_pure list_all2_map_right tableOf_def indexOf_def mkColumn_def
      toBoolean_falsy) (auto simp: falsy_def)

section \<open>The primary-key ordinal\<close>

text \<open>
  C5. Over an unchanging database every Column of the result has as its primaryKey the
  \<^verbatim>\<open>pk\<close> field of its row, unchanged: 0 stays 0 and an ordinal \<open>i\<close> stays \<open>i\<close>. The field
  holds a value, not a boolean. (In the example below the catalog reports the ordinals
  1, 2 and 0 for \<^verbatim>\<open>name\<close>, \<^verbatim>\<open>id\<close> and \<^verbatim>\<open>note\<close>, and so does the result.)
\<close>

theorem primaryKey_preserved:
  "\<exists>ts. getStructure (pureStorage f) s = (Inr ts, s) \<and>
     list_all2 (\<lambda>table t.
         list_all2 (\<lambda>column c. c_primaryKey c = column ''pk'')
           (f (pragmaTableInfoQuery (table ''name'') (table ''schema''))) (t_columns t))
       (f pragmaTableListQuery) ts"
  by (simp add: getStructure_pure list_all2_map_right tableOf_def mkColumn_def)

section \<open>Bound parameters\<close>

text \<open>
  C8. The column-list, index-list and index-column queries carry the name and the schema
  as their two bound values, and their text is the same for every name and schema: the
  constant statement with two placeholders.
\<close>

theorem bound_parameters:
  \<open>q_values (pragmaTableInfoQuery name schema) = [name, schema] \<and>
   q_values (pragmaIndexListQuery name schema) = [name, schema] \<and>
   q_values (pragmaIndexInfoQuery name schema) = [name, schema] \<and>
   q_sql (pragmaTableInfoQuery name schema) = q_sql (pragmaTableInfoQuery name' schema') \<and>
   q_sql (pragmaIndexListQuery name schema) = q_sql (pragmaIndexListQuery name' schema') \<and>
   q_sql (pragmaIndexInfoQuery name schema) = q_sql (pragmaIndexInfoQuery name' schema') \<and>
   q_sql (pragmaTableInfoQuery name schema) =
     ''\<newline>    select "name", "type", "notnull", "dflt_value", "pk"'' @
     ''\<newline>    from pragma_table_info( ?, ? )'' @
     ''\<newline>    order by "name"'' @
     ''\<newline>  '' \<and>
   q_sql (pragmaIndexListQuery name schema) =
     ''\<newline>    select "name", "unique", "origin", "partial"'' @
     ''\<newline>    from pragma_index_list( ?, ? )'' @
     ''\<newline>    order by "name"'' @
     ''\<newline>  '' \<and>
   q_sql (pragmaIndexInfoQuery name schema) =
     ''\<newline>    select "name" from'' @
     ''\<newline>    pragma_index_info( ?, ? )'' @
     ''\<newline>    order by "seqno"'' @
     ''\<newline>  ''\<close>
  by (simp add: pragmaTableInfoQuery_def pragmaIndexListQuery_def pragmaIndexInfoQuery_def
      sql_tag_def)

section \<open>The engine on the four queries\<close>

lemma queries_distinct:
  "pragmaTableInfoQuery n s \<noteq> pragmaIndexListQuery n' s'"
  "pragmaTableInfoQuery n s \<noteq> pragmaIndexInfoQuery n' s'"
  "pragmaIndexListQuery n s \<noteq> pragmaIndexInfoQuery n' s'"
  by (simp_all add: pragmaTableInfoQuery_def pragmaIndexListQuery_def pragmaIndexInfoQuery_def
      sql_tag_def)

lemma table_list_row_simps:
  "table_list_row e ''schema'' = Some (Str (tl_schema e))"
  "table_list_row e ''name'' = Some (Str (tl_name e))"
  "table_list_row e ''type'' = Some (tl_type e)"
  "table_list_row e ''wr'' = Some (tl_wr e)"
  "table_list_row e ''strict'' = Some (tl_strict e)"
  by (simp_all add: table_list_row_def)

lemma table_info_row_simps:
  "table_info_row e ''name'' = Some (Str (ti_name e))"
  "table_info_row e ''type'' = Some (ti_type e)"
  "table_info_row e ''notnull'' = Some (ti_notnull e)"
  "table_info_row e ''dflt_value'' = Some (ti_dflt_value e)"
  "table_info_row e ''pk'' = Some (ti_pk e)"
  by (simp_all add: table_info_row_def)

lemma index_list_row_simps:
  "index_list_row e ''name'' = Some (Str (il_name e))"
  "index_list_row e ''unique'' = Some (il_unique e)"
  "index_list_row e ''origin'' = Some (il_origin e)"
  "index_list_row e ''partial'' = Some (il_partial e)"
  by (simp_all add: index_list_row_def)

lemma parse_table_list:
  "parse (q_sql pragmaTableListQuery) =
     Some \<lparr> st_select = [''schema'', ''name'', ''type'', ''wr'', ''strict''],
            st_from = ''pragma_table_list'', st_args = 0,
            st_where = [(''schema'', True, ''temp''), (''name'', True, ''sqlite_%'')],
            st_order = [''schema'', ''name''] \<rparr>"
  by (simp add: parse_def pragmaTableListQuery_def sql_tag_def is_space_def is_word_char_def in_range_def
      ascii_lower_def)

lemma parse_table_info:
  "parse (q_sql (pragmaTableInfoQuery n s)) =
     Some \<lparr> st_select = [''name'', ''type'', ''notnull'', ''dflt_value'', ''pk''],
            st_from = ''pragma_table_info'', st_args = 2,
            st_where = [], st_order = [''name''] \<rparr>"
  by (simp add: parse_def pragmaTableInfoQuery_def sql_tag_def is_space_def is_word_char_def in_range_def
      ascii_lower_def)

lemma parse_index_list:
  "parse (q_sql (pragmaIndexListQuery n s)) =
     Some \<lparr> st_select = [''name'', ''unique'', ''origin'', ''partial''],
            st_from = ''pragma_index_list'', st_args = 2,
            st_where = [], st_order = [''name''] \<rparr>"
  by (simp add: parse_def pragmaIndexListQuery_def sql_tag_def is_space_def is_word_char_def in_range_def
      ascii_lower_def)

lemma parse_index_info:
  "parse (q_sql (pragmaIndexInfoQuery n s)) =
     Some \<lparr> st_select = [''name''],
            st_from = ''pragma_index_info'', st_args = 2,
            st_where = [], st_order = [''seqno''] \<rparr>"
  by (simp add: parse_def pragmaIndexInfoQuery_def sql_tag_def is_space_def is_word_char_def in_range_def
      ascii_lower_def)

lemma insort_key_map:
  "insort_key f (g x) (map g xs) = map g (insort_key (\<lambda>y. f (g y)) x xs)"
  by (induction xs) simp_all

lemma sort_key_map: "sort_key f (map g xs) = map g (sort_key (\<lambda>y. f (g y)) xs)"
  by (induction xs) (simp_all add: insort_key_map)

lemma insort_key_same_order:
  assumes "\<And>x y. (f x \<le> f y) = (g x \<le> g y)"
  shows "insort_key f x xs = insort_key g x xs"
  by (induction xs) (simp_all add: assms)

lemma sort_key_same_order:
  assumes "\<And>x y. (f x \<le> f y) = (g x \<le> g y)"
  shows "sort_key f xs = sort_key g xs"
  by (induction xs) (simp_all add: insort_key_same_order [of f g, OF assms])

lemma q_values_simps:
  "q_values pragmaTableListQuery = []"
  "q_values (pragmaTableInfoQuery n s) = [n, s]"
  "q_values (pragmaIndexListQuery n s) = [n, s]"
  "q_values (pragmaIndexInfoQuery n s) = [n, s]"
  by (simp_all add: pragmaTableListQuery_def pragmaTableInfoQuery_def pragmaIndexListQuery_def
      pragmaIndexInfoQuery_def sql_tag_def)

lemma restrict_rows:
  "table_list_row a |` {''schema'', ''name'', ''type'', ''wr'', ''strict''} = table_list_row a"
  "table_info_row b |` {''name'', ''type'', ''notnull'', ''dflt_value'', ''pk''} =
     table_info_row b"
  "index_list_row c |` {''name'', ''unique'', ''origin'', ''partial''} = index_list_row c"
  "index_info_columns d |` {''name''} = index_info_row d"
  by (rule ext, simp add: restrict_map_def table_list_row_def table_info_row_def
      index_list_row_def index_info_columns_def index_info_row_def)+

lemma order_by_name:
  "sort_key (\<lambda>e. [(4::nat, 0::real, ti_name e)]) = sort_key ti_name"
  "sort_key (\<lambda>e. [(4::nat, 0::real, il_name e)]) = sort_key il_name"
  by (rule ext, rule sort_key_same_order, simp add: le_less)+

lemma order_by_seqno:
  "sort_key (\<lambda>e. [(2::nat, real_of_int (ii_seqno e), [] :: string)]) = sort_key ii_seqno"
  by (rule ext, rule sort_key_same_order, simp add: le_less)

lemma order_by_schema_name:
  "sort_key (\<lambda>e. [(4::nat, 0::real, tl_schema e), (4, 0, tl_name e)]) =
     sort_key (\<lambda>e. (tl_schema e, tl_name e))"
  by (rule ext, rule sort_key_same_order) (auto simp: le_less)

lemma list_all_True: "list_all (\<lambda>x. True) xs"
  by (simp add: list_all_iff)

lemma index_info_columns_simps:
  "index_info_columns e ''seqno'' = Some (Num (Finite (of_int (ii_seqno e))))"
  "index_info_columns e ''name'' = Some (ii_name e)"
  by (simp_all add: index_info_columns_def)

lemma sqlite_simps:
  "sqlite db pragmaTableListQuery = select_table_list db"
  "sqlite db (pragmaTableInfoQuery n s) = select_table_info db n s"
  "sqlite db (pragmaIndexListQuery n s) = select_index_list db n s"
  "sqlite db (pragmaIndexInfoQuery n s) = select_index_info db n s"
proof -
  show "sqlite db pragmaTableListQuery = select_table_list db"
    by (simp add: sqlite_def parse_table_list run_def q_values_simps relation_def sort_key_map
        table_list_row_simps restrict_rows order_by_schema_name select_table_list_def
        filter_map comp_def list_all_iff)
  show "sqlite db (pragmaTableInfoQuery n s) = select_table_info db n s"
    by (simp add: sqlite_def parse_table_info run_def q_values_simps relation_def sort_key_map
        table_info_row_simps restrict_rows order_by_name select_table_info_def list_all_True
        comp_def)
  show "sqlite db (pragmaIndexListQuery n s) = select_index_list db n s"
    by (simp add: sqlite_def parse_index_list run_def q_values_simps relation_def sort_key_map
        index_list_row_simps restrict_rows order_by_name select_index_list_def list_all_True
        comp_def)
  show "sqlite db (pragmaIndexInfoQuery n s) = select_index_info db n s"
    by (simp add: sqlite_def parse_index_info run_def q_values_simps relation_def sort_key_map
        index_info_columns_simps restrict_rows order_by_seqno select_index_info_def
        list_all_True comp_def)
qed

lemma like_temp: "like ''temp'' ''temp''"
  by (simp add: ascii_lower_def)

lemma like_prefix_any: "like ''%'' cs"
  by (induction cs) simp_all

lemma like_sqlite_prefix: "prefix ''sqlite_'' n \<Longrightarrow> like ''sqlite_%'' n"
  by (auto simp: prefix_def ascii_lower_def like_prefix_any)

lemma ascii_lower_plus_32:
  "CHR ''A'' \<le> c \<Longrightarrow> c \<le> CHR ''Z'' \<Longrightarrow> of_char (ascii_lower c) = (of_char c + 32 :: nat)"
proof (cases c)
  case (Char b0 b1 b2 b3 b4 b5 b6 b7)
  assume "CHR ''A'' \<le> c" "c \<le> CHR ''Z''"
  then show ?thesis
    unfolding Char
    by (cases b0; cases b1; cases b2; cases b3; cases b4; cases b5; cases b6; cases b7)
      (simp_all add: ascii_lower_def less_eq_char_def)
qed

lemma getStructure_sqlite:
  "getStructure (pureStorage (sqlite db)) s =
     (Inr (map (tableOf (sqlite db)) (select_table_list db)), s)"
  by (simp add: getStructure_pure sqlite_simps)

lemma sort_key_permutation:
  assumes "mset xs = mset ys" and "distinct (map f xs)"
  shows "sort_key f xs = sort_key f ys"
proof (rule sort_key_inj_key_eq)
  show "mset xs = mset (sort_key f ys)" using assms(1) by simp
  show "inj_on f (set xs)" using assms(2) by (simp add: distinct_map)
  show "sorted (map f (sort_key f ys))" by simp
qed

lemma tableOf_column_names:
  "map c_name (t_columns (tableOf (sqlite db) (table_list_row e))) =
     map (\<lambda>n. Some (Str n))
       (map ti_name (sort_key ti_name
          (pragma_table_info db (Some (Str (tl_name e))) (Some (Str (tl_schema e))))))"
  by (simp add: tableOf_def sqlite_simps select_table_info_def mkColumn_def
      table_info_row_simps table_list_row_simps comp_def)

lemma getStructure_pure_cong:
  assumes "f pragmaTableListQuery = g pragmaTableListQuery"
    and "\<And>n s. f (pragmaTableInfoQuery n s) = g (pragmaTableInfoQuery n s)"
    and "\<And>n s. f (pragmaIndexListQuery n s) = g (pragmaIndexListQuery n s)"
    and "\<And>n s. f (pragmaIndexInfoQuery n s) = g (pragmaIndexInfoQuery n s)"
  shows "getStructure (pureStorage f) s = getStructure (pureStorage g) s"
proof -
  have "indexOf f = indexOf g"
    by (intro ext) (simp add: indexOf_def assms(4))
  then have "tableOf f = tableOf g"
    by (intro ext) (simp add: tableOf_def assms(2,3))
  then show ?thesis
    by (simp add: getStructure_pure assms(1))
qed

lemma getStructure_redeclared:
  assumes "\<forall>name schema. mset (declared name schema) = mset (pragma_table_info db name schema) \<and>
             distinct (map ti_name (declared name schema))"
  shows "getStructure (pureStorage (sqlite (db\<lparr>pragma_table_info := declared\<rparr>))) s =
         getStructure (pureStorage (sqlite db)) s"
proof (rule getStructure_pure_cong)
  show "sqlite (db\<lparr>pragma_table_info := declared\<rparr>) pragmaTableListQuery =
        sqlite db pragmaTableListQuery"
    by (simp add: sqlite_simps select_table_list_def)
  show "sqlite (db\<lparr>pragma_table_info := declared\<rparr>) (pragmaTableInfoQuery n s) =
        sqlite db (pragmaTableInfoQuery n s)" for n s
    using assms
    by (simp add: sqlite_simps select_table_info_def sort_key_permutation [of "declared n s"])
  show "sqlite (db\<lparr>pragma_table_info := declared\<rparr>) (pragmaIndexListQuery n s) =
        sqlite db (pragmaIndexListQuery n s)" for n s
    by (simp add: sqlite_simps select_index_list_def)
  show "sqlite (db\<lparr>pragma_table_info := declared\<rparr>) (pragmaIndexInfoQuery n s) =
        sqlite db (pragmaIndexInfoQuery n s)" for n s
    by (simp add: sqlite_simps select_index_info_def)
qed

lemma tableOf_index_columns:
  "i \<in> set (t_indexes (tableOf (sqlite db) (table_list_row e))) \<Longrightarrow>
   i_columns i = map index_info_row
     (sort_key ii_seqno (pragma_index_info db (i_name i) (t_schema (tableOf (sqlite db) (table_list_row e)))))"
  by (auto simp: tableOf_def indexOf_def sqlite_simps select_index_info_def table_list_row_simps)

section \<open>The example, evaluated\<close>

lemma example_select_table_list:
  "select_table_list example_db =
     [table_list_row \<lparr> tl_schema = ''main'', tl_name = ''t'', tl_type = Str ''table'',
            tl_wr = Num (Finite 0), tl_strict = Num (Finite 0) \<rparr>]"
  by (simp add: select_table_list_def example_db_def ascii_lower_def)

lemma example_select_table_info:
  "select_table_info example_db (Some (Str ''t'')) (Some (Str ''main'')) =
     [table_info_row \<lparr> ti_name = ''id'', ti_type = Str ''integer'', ti_notnull = Num (Finite 1),
                  ti_dflt_value = Null, ti_pk = Num (Finite 2) \<rparr>,
      table_info_row \<lparr> ti_name = ''name'', ti_type = Str ''text'', ti_notnull = Num (Finite 1),
                  ti_dflt_value = Null, ti_pk = Num (Finite 1) \<rparr>,
      table_info_row \<lparr> ti_name = ''note'', ti_type = Str ''text'', ti_notnull = Num (Finite 0),
                  ti_dflt_value = Null, ti_pk = Num (Finite 0) \<rparr>]"
  by (simp add: select_table_info_def example_db_def)

lemma example_select_index_list:
  "select_index_list example_db (Some (Str ''t'')) (Some (Str ''main'')) =
     [index_list_row \<lparr> il_name = ''t_name_id'', il_unique = Num (Finite 1),
        il_origin = Str ''c'', il_partial = Num (Finite 0) \<rparr>]"
  by (simp add: select_index_list_def example_db_def)

lemma example_select_index_info:
  "select_index_info example_db (Some (Str ''t_name_id'')) (Some (Str ''main'')) =
     [[''name'' \<mapsto> Str ''name''], [''name'' \<mapsto> Str ''id'']]"
  by (simp add: select_index_info_def example_db_def index_info_row_def)

lemma example_structure:
  "getStructure (pureStorage (sqlite example_db)) s = (Inr [example_table], s)"
  by (simp add: getStructure_sqlite example_select_table_list tableOf_def indexOf_def
      mkColumn_def sqlite_simps table_list_row_simps table_info_row_simps index_list_row_simps
      example_select_table_info example_select_index_list example_select_index_info
      example_table_def example_index_def)

lemma example_redeclared_permutes:
  "\<forall>name schema.
      mset (example_redeclared name schema) = mset (pragma_table_info example_db name schema) \<and>
      distinct (map ti_name (example_redeclared name schema))"
  unfolding example_redeclared_def by (simp add: example_db_def)

lemma example_declarations:
  "map ti_name (pragma_table_info example_db (Some (Str ''t'')) (Some (Str ''main''))) =
     [''name'', ''id'', ''note'']"
  "map ti_name (example_redeclared (Some (Str ''t'')) (Some (Str ''main''))) =
     [''note'', ''id'', ''name'']"
  by (simp_all add: example_redeclared_def example_db_def)

lemma example_table_simps:
  "t_schema example_table = Some (Str ''main'')"
  "t_name example_table = Some (Str ''t'')"
  "map c_name (t_columns example_table) = map (\<lambda>n. Some (Str n)) [''id'', ''name'', ''note'']"
  "t_indexes example_table = [example_index]"
  by (simp_all add: example_table_def example_index_def)

lemma example_index_info:
  "pragma_index_info example_db (i_name example_index) (t_schema example_table) =
     [\<lparr> ii_seqno = 1, ii_name = Str ''id'' \<rparr>, \<lparr> ii_seqno = 0, ii_name = Str ''name'' \<rparr>]"
  "map (\<lambda>row. row ''name'') (i_columns example_index) = [Some (Str ''name''), Some (Str ''id'')]"
  by (simp_all add: example_db_def example_index_def example_table_def)

section \<open>Excluded tables\<close>

text \<open>
  C6. Over every database no Table of the result is in the schema \<^verbatim>\<open>temp\<close>, and no
  Table of the result has a name that starts with \<^verbatim>\<open>sqlite_\<close>.
\<close>

theorem internal_tables_excluded:
  "\<exists>ts. getStructure (pureStorage (sqlite db)) s = (Inr ts, s) \<and>
     (\<forall>t\<in>set ts. t_schema t \<noteq> Some (Str ''temp'') \<and>
        (\<forall>n. t_name t = Some (Str n) \<longrightarrow> \<not> prefix ''sqlite_'' n))"
  using like_temp like_sqlite_prefix
  by (auto simp: getStructure_sqlite select_table_list_def tableOf_def table_list_row_simps)

theorem internal_tables_excluded_witness:
  "getStructure (pureStorage (sqlite example_db) :: (unit, unit) Storage) () =
     (Inr [example_table], ()) \<and>
   example_table \<in> set [example_table] \<and>
   t_schema example_table \<noteq> Some (Str ''temp'') \<and>
   t_name example_table = Some (Str ''t'') \<and> \<not> prefix ''sqlite_'' ''t'' \<and>
   map (\<lambda>e. (tl_schema e, tl_name e)) (pragma_table_list example_db) =
     [(''main'', ''t''), (''temp'', ''scratch''), (''main'', ''sqlite_sequence'')]"
proof -
  obtain ts where ts: "getStructure (pureStorage (sqlite example_db) :: (unit, unit) Storage) () =
      (Inr ts, ())"
    and all: "\<forall>t\<in>set ts. t_schema t \<noteq> Some (Str ''temp'') \<and>
        (\<forall>n. t_name t = Some (Str n) \<longrightarrow> \<not> prefix ''sqlite_'' n)"
    using internal_tables_excluded [of example_db "()"] by blast
  have "ts = [example_table]"
    using ts by (simp add: example_structure)
  then have "t_schema example_table \<noteq> Some (Str ''temp'') \<and> \<not> prefix ''sqlite_'' ''t''"
    using all example_table_simps(2) by simp
  moreover have "map (\<lambda>e. (tl_schema e, tl_name e)) (pragma_table_list example_db) =
     [(''main'', ''t''), (''temp'', ''scratch''), (''main'', ''sqlite_sequence'')]"
    by (simp add: example_db_def)
  ultimately show ?thesis
    using example_structure [of "()"] example_table_simps(2) by simp
qed

section \<open>Column order\<close>

text \<open>
  C2. Over every database the Columns of each Table of the result are in ascending order
  of their names. So the order of declaration does not show: if the catalog lists the
  columns of each table in another order (the same entries, with distinct names), the
  result is the same.
\<close>

theorem columns_sorted_by_name:
  "(\<exists>ts. getStructure (pureStorage (sqlite db) :: ('e, 's) Storage) s = (Inr ts, s) \<and>
      (\<forall>t\<in>set ts. \<exists>ns. map c_name (t_columns t) = map (\<lambda>n. Some (Str n)) ns \<and> sorted ns)) \<and>
   ((\<forall>name schema. mset (declared name schema) = mset (pragma_table_info db name schema) \<and>
        distinct (map ti_name (declared name schema))) \<longrightarrow>
      getStructure (pureStorage (sqlite (db\<lparr>pragma_table_info := declared\<rparr>)) :: ('e, 's) Storage) s =
      getStructure (pureStorage (sqlite db)) s)"
proof (intro conjI impI)
  have "\<exists>ns. map c_name (t_columns (tableOf (sqlite db) (table_list_row e))) =
          map (\<lambda>n. Some (Str n)) ns \<and> sorted ns" for e
  proof (intro exI conjI)
    show "map c_name (t_columns (tableOf (sqlite db) (table_list_row e))) =
      map (\<lambda>n. Some (Str n)) (map ti_name (sort_key ti_name
          (pragma_table_info db (Some (Str (tl_name e))) (Some (Str (tl_schema e))))))"
      by (rule tableOf_column_names)
    show "sorted (map ti_name (sort_key ti_name
          (pragma_table_info db (Some (Str (tl_name e))) (Some (Str (tl_schema e))))))"
      by simp
  qed
  then have "\<forall>t\<in>set (map (tableOf (sqlite db)) (select_table_list db)).
      \<exists>ns. map c_name (t_columns t) = map (\<lambda>n. Some (Str n)) ns \<and> sorted ns"
    unfolding select_table_list_def set_map by blast
  then show "\<exists>ts. getStructure (pureStorage (sqlite db) :: ('e, 's) Storage) s = (Inr ts, s) \<and>
      (\<forall>t\<in>set ts. \<exists>ns. map c_name (t_columns t) = map (\<lambda>n. Some (Str n)) ns \<and> sorted ns)"
    unfolding getStructure_sqlite by blast
next
  assume a: "\<forall>name schema. mset (declared name schema) = mset (pragma_table_info db name schema) \<and>
        distinct (map ti_name (declared name schema))"
  show "getStructure (pureStorage (sqlite (db\<lparr>pragma_table_info := declared\<rparr>)) :: ('e, 's) Storage) s =
      getStructure (pureStorage (sqlite db)) s"
    by (rule getStructure_redeclared [OF a])
qed

theorem columns_sorted_by_name_witness:
  "getStructure (pureStorage (sqlite example_db) :: (unit, unit) Storage) () =
     (Inr [example_table], ()) \<and>
   example_table \<in> set [example_table] \<and>
   map c_name (t_columns example_table) = map (\<lambda>n. Some (Str n)) [''id'', ''name'', ''note''] \<and>
   sorted [''id'', ''name'', ''note''] \<and>
   map ti_name (pragma_table_info example_db (Some (Str ''t'')) (Some (Str ''main''))) =
     [''name'', ''id'', ''note''] \<and>
   map ti_name (example_redeclared (Some (Str ''t'')) (Some (Str ''main''))) =
     [''note'', ''id'', ''name''] \<and>
   (\<forall>name schema.
      mset (example_redeclared name schema) = mset (pragma_table_info example_db name schema) \<and>
      distinct (map ti_name (example_redeclared name schema))) \<and>
   getStructure (pureStorage (sqlite (example_db\<lparr>pragma_table_info := example_redeclared\<rparr>))
      :: (unit, unit) Storage) () = (Inr [example_table], ())"
proof -
  have "getStructure (pureStorage (sqlite (example_db\<lparr>pragma_table_info := example_redeclared\<rparr>))
      :: (unit, unit) Storage) () = getStructure (pureStorage (sqlite example_db)) ()"
    using columns_sorted_by_name [of example_db "()" example_redeclared]
      example_redeclared_permutes by blast
  then have "getStructure (pureStorage (sqlite (example_db\<lparr>pragma_table_info := example_redeclared\<rparr>))
      :: (unit, unit) Storage) () = (Inr [example_table], ())"
    by (simp only: example_structure)
  moreover have "sorted [''id'', ''name'', ''note'']" by simp
  moreover have "example_table \<in> set [example_table]" by simp
  ultimately show ?thesis
    using example_redeclared_permutes example_declarations example_table_simps(3)
      example_structure [of "()"]
    by blast
qed

section \<open>Index column order\<close>

text \<open>
  C3. Over every database the columns of each Index of the result are the catalog's
  index-info entries of that index, arranged in ascending order of \<^verbatim>\<open>seqno\<close>, each
  projected to its name. In the example the index on \<^verbatim>\<open>(name, id)\<close> gives
  \<^verbatim>\<open>[name, id]\<close>, which is not the alphabetical order.
\<close>

theorem index_columns_by_seqno:
  "\<exists>ts. getStructure (pureStorage (sqlite db)) s = (Inr ts, s) \<and>
     (\<forall>t\<in>set ts. \<forall>i\<in>set (t_indexes t). \<exists>es.
        mset es = mset (pragma_index_info db (i_name i) (t_schema t)) \<and>
        sorted (map ii_seqno es) \<and>
        i_columns i = map index_info_row es)"
proof -
  have "\<exists>es. mset es = mset (pragma_index_info db (i_name i) (t_schema t)) \<and>
        sorted (map ii_seqno es) \<and> i_columns i = map index_info_row es"
    if "i \<in> set (t_indexes t)" "t = tableOf (sqlite db) (table_list_row e)" for i t e
    using tableOf_index_columns [of i db e] that
    by (intro exI [of _ "sort_key ii_seqno (pragma_index_info db (i_name i) (t_schema t))"]) simp
  then have "\<forall>t\<in>set (map (tableOf (sqlite db)) (select_table_list db)).
      \<forall>i\<in>set (t_indexes t). \<exists>es.
        mset es = mset (pragma_index_info db (i_name i) (t_schema t)) \<and>
        sorted (map ii_seqno es) \<and>
        i_columns i = map index_info_row es"
    unfolding select_table_list_def set_map by blast
  then show ?thesis
    unfolding getStructure_sqlite by blast
qed

theorem index_columns_by_seqno_witness:
  "getStructure (pureStorage (sqlite example_db) :: (unit, unit) Storage) () =
     (Inr [example_table], ()) \<and>
   example_table \<in> set [example_table] \<and>
   example_index \<in> set (t_indexes example_table) \<and>
   (\<exists>es. mset es =
           mset (pragma_index_info example_db (i_name example_index) (t_schema example_table)) \<and>
         sorted (map ii_seqno es) \<and>
         i_columns example_index = map index_info_row es) \<and>
   pragma_index_info example_db (i_name example_index) (t_schema example_table) =
     [\<lparr> ii_seqno = 1, ii_name = Str ''id'' \<rparr>, \<lparr> ii_seqno = 0, ii_name = Str ''name'' \<rparr>] \<and>
   map (\<lambda>row. row ''name'') (i_columns example_index) = [Some (Str ''name''), Some (Str ''id'')]"
proof -
  obtain ts where ts: "getStructure (pureStorage (sqlite example_db) :: (unit, unit) Storage) () =
      (Inr ts, ())"
    and all: "\<forall>t\<in>set ts. \<forall>i\<in>set (t_indexes t). \<exists>es.
        mset es = mset (pragma_index_info example_db (i_name i) (t_schema t)) \<and>
        sorted (map ii_seqno es) \<and> i_columns i = map index_info_row es"
    using index_columns_by_seqno [of example_db "()"] by blast
  have "ts = [example_table]"
    using ts by (simp add: example_structure)
  then have t: "example_table \<in> set ts"
    by simp
  have i: "example_index \<in> set (t_indexes example_table)"
    by (simp add: example_table_simps)
  have "\<exists>es. mset es =
           mset (pragma_index_info example_db (i_name example_index) (t_schema example_table)) \<and>
         sorted (map ii_seqno es) \<and>
         i_columns example_index = map index_info_row es"
    using all t i by blast
  moreover have "example_table \<in> set [example_table]"
    by simp
  ultimately show ?thesis
    using i example_index_info example_structure [of "()"] by blast
qed

section \<open>The order of the queries\<close>

lemma emits_return: "emits (return_io x) x []"
  by (simp add: emits_def return_io_def)

lemma emits_bind:
  assumes "emits m x tr" and "emits (k x) y tr'"
  shows "emits (bind_io m k) y (tr @ tr')"
  using assms by (simp add: emits_def bind_io_def)

lemma emits_map_io:
  assumes "\<And>x. emits (g x) (h x) (t x)"
  shows "emits (map_io g xs) (map h xs) (concat (map t xs))"
proof (induction xs)
  case Nil
  show ?case by (simp add: emits_return)
next
  case (Cons x xs)
  have "emits (bind_io (map_io g xs) (\<lambda>ys. return_io (h x # ys))) (h x # map h xs)
      (concat (map t xs) @ [])"
    by (rule emits_bind [OF Cons.IH emits_return])
  then have "emits (bind_io (g x) (\<lambda>y. bind_io (map_io g xs) (\<lambda>ys. return_io (y # ys))))
      (h x # map h xs) (t x @ concat (map t xs) @ [])"
    by (rule emits_bind [OF assms])
  then show ?case by simp
qed

lemma emits_exec:
  "emits (exec (traced (pureStorage f)) query) (f query) [answered f query]"
  by (simp add: emits_def exec_def traced_def pureStorage_def answered_def)

lemma emits_mkIndex:
  "emits (mkIndex (traced (pureStorage f)) schema index) (indexOf f schema index)
     [answered f (pragmaIndexInfoQuery (index ''name'') schema)]"
  using emits_bind [OF emits_exec emits_return]
  unfolding mkIndex_def indexOf_def by simp

lemma emits_indexes:
  "emits (map_io (mkIndex (traced (pureStorage f)) schema) rows) (map (indexOf f schema) rows)
     (map (\<lambda>index. answered f (pragmaIndexInfoQuery (index ''name'') schema)) rows)"
  using emits_map_io [of "mkIndex (traced (pureStorage f)) schema", OF emits_mkIndex, of rows]
  by (simp only: concat_map_singleton)

lemma concat_map_Nil: "concat (map (\<lambda>_. []) xs) = []"
  by (induction xs) simp_all

lemma emits_columns:
  "emits (map_io (\<lambda>column. return_io (mkColumn column)) rows) (map mkColumn rows) []"
  using emits_map_io [of "\<lambda>column. return_io (mkColumn column)" mkColumn "\<lambda>_. []" rows]
  by (simp add: emits_return concat_map_Nil)

lemma emits_mkTable:
  "emits (mkTable (traced (pureStorage f) :: ('e, 's \<times> 'e log) Storage) table) (tableOf f table)
     (map (answered f) (table_calls f table))"
proof -
  let ?st = "traced (pureStorage f) :: ('e, 's \<times> 'e log) Storage"
  let ?il = "pragmaIndexListQuery (table ''name'') (table ''schema'')"
  let ?ti = "pragmaTableInfoQuery (table ''name'') (table ''schema'')"
  let ?ii = "\<lambda>index. pragmaIndexInfoQuery (index ''name'') (table ''schema'')"
  have 1: "emits (bind_io (exec ?st ?il) (map_io (mkIndex ?st (table ''schema''))))
      (map (indexOf f (table ''schema'')) (f ?il))
      ([answered f ?il] @ map (\<lambda>index. answered f (?ii index)) (f ?il))"
    by (rule emits_bind [OF emits_exec emits_indexes])
  have 2: "emits (bind_io (exec ?st ?ti) (map_io (\<lambda>column. return_io (mkColumn column))))
      (map mkColumn (f ?ti)) ([answered f ?ti] @ [])"
    by (rule emits_bind [OF emits_exec emits_columns])
  have 3: "emits (mkTable ?st table) (tableOf f table)
      (([answered f ?il] @ map (\<lambda>index. answered f (?ii index)) (f ?il)) @
       (([answered f ?ti] @ []) @ []))"
    unfolding mkTable_def tableOf_def Let_def
    by (rule emits_bind, rule 1, rule emits_bind, rule 2, rule emits_return)
  have "([answered f ?il] @ map (\<lambda>index. answered f (?ii index)) (f ?il)) @
       (([answered f ?ti] @ []) @ []) =
     (map (answered f) (table_calls f table) :: 'e log)"
    by (simp add: table_calls_def comp_def)
  with 3 show ?thesis
    by (simp only:)
qed

lemma emits_getStructure:
  "emits (getStructure (traced (pureStorage f) :: ('e, 's \<times> 'e log) Storage))
     (map (tableOf f) (f pragmaTableListQuery))
     (map (answered f) (all_calls f))"
proof -
  let ?st = "traced (pureStorage f) :: ('e, 's \<times> 'e log) Storage"
  have "emits (map_io (mkTable ?st) rows) (map (tableOf f) rows)
      (concat (map (\<lambda>table. map (answered f) (table_calls f table)) rows))" for rows
    by (rule emits_map_io) (rule emits_mkTable)
  then have "emits (getStructure ?st) (map (tableOf f) (f pragmaTableListQuery))
      ([answered f pragmaTableListQuery] @
       concat (map (\<lambda>table. map (answered f) (table_calls f table)) (f pragmaTableListQuery)))"
    unfolding getStructure_def by (rule emits_bind [OF emits_exec])
  moreover have "[answered f pragmaTableListQuery] @
       concat (map (\<lambda>table. map (answered f) (table_calls f table)) (f pragmaTableListQuery)) =
     (map (answered f) (all_calls f) :: 'e log)"
    by (simp add: all_calls_def map_concat comp_def)
  ultimately show ?thesis
    by (simp only:)
qed

lemma getStructure_traced_pure:
  "getStructure (traced (pureStorage f)) (s, calls) =
     (Inr (map (tableOf f) (f pragmaTableListQuery)), (s, calls @ map (answered f) (all_calls f)))"
  by (rule emits_getStructure [unfolded emits_def, rule_format])

lemma map_fst_answered: "map fst (map (answered f) qs) = qs"
  by (induction qs) (simp_all add: answered_def)

lemma example_all_calls:
  "all_calls (sqlite example_db) =
     [pragmaTableListQuery,
      pragmaIndexListQuery (Some (Str ''t'')) (Some (Str ''main'')),
      pragmaIndexInfoQuery (Some (Str ''t_name_id'')) (Some (Str ''main'')),
      pragmaTableInfoQuery (Some (Str ''t'')) (Some (Str ''main''))]"
  by (simp add: all_calls_def table_calls_def sqlite_simps example_select_table_list
      example_select_index_list table_list_row_simps index_list_row_simps)

text \<open>
  C9, as the claim states it, fails: on the example database the index-column query of
  the index \<^verbatim>\<open>t_name_id\<close> is issued third, before the column-list query of its table
  \<^verbatim>\<open>t\<close>, which is issued last.
\<close>

theorem index_columns_queried_before_table_columns:
  "map fst (snd (snd (getStructure
       (traced (pureStorage (sqlite example_db)) :: (unit, unit \<times> unit log) Storage) ((), [])))) =
     [pragmaTableListQuery,
      pragmaIndexListQuery (Some (Str ''t'')) (Some (Str ''main'')),
      pragmaIndexInfoQuery (Some (Str ''t_name_id'')) (Some (Str ''main'')),
      pragmaTableInfoQuery (Some (Str ''t'')) (Some (Str ''main''))]"
  unfolding getStructure_traced_pure
  by (simp only: snd_conv append_Nil map_fst_answered example_all_calls)

text \<open>
  C9, amended. Over an unchanging database a call of \<open>getStructure\<close> issues its queries
  one after the other in this order: first the table-list query; then, for each table in
  turn, its index-list query, the index-column query of each of its indexes in turn, and
  last its column-list query. So every index-column query of a table is issued after that
  table's index-list query and before its column-list query.
\<close>

theorem query_order:
  "map fst (snd (snd (getStructure (traced (pureStorage f)) (s, [])))) =
     pragmaTableListQuery #
     concat (map (\<lambda>table.
         pragmaIndexListQuery (table ''name'') (table ''schema'') #
         map (\<lambda>index. pragmaIndexInfoQuery (index ''name'') (table ''schema''))
           (f (pragmaIndexListQuery (table ''name'') (table ''schema''))) @
         [pragmaTableInfoQuery (table ''name'') (table ''schema'')])
       (f pragmaTableListQuery))"
proof -
  have "map fst (snd (snd (getStructure (traced (pureStorage f)) (s, [])))) = all_calls f"
    unfolding getStructure_traced_pure by (simp only: snd_conv append_Nil map_fst_answered)
  then show ?thesis
    unfolding all_calls_def table_calls_def .
qed

section \<open>Failure\<close>

lemma tracks_return: "tracks (return_io x) (return_io x)"
  by (simp add: tracks_def return_io_def outcome_logged_def)

lemma outcome_logged_append:
  "list_all succeeded new1 \<Longrightarrow> outcome_logged r new2 \<Longrightarrow> outcome_logged r (new1 @ new2)"
  by (cases r) (auto simp: outcome_logged_def butlast_append)

lemma tracks_bind:
  assumes m: "tracks m' m" and k: "\<And>x. tracks (k' x) (k x)"
  shows "tracks (bind_io m' k') (bind_io m k)"
  unfolding tracks_def
proof (intro allI)
  fix s calls
  obtain r s1 where ms: "m s = (r, s1)"
    by (cases "m s")
  obtain new1 where 1: "m' (s, calls) = (r, (s1, calls @ new1))" and o1: "outcome_logged r new1"
    using m ms unfolding tracks_def by (metis fst_conv snd_conv)
  show "\<exists>new. bind_io m' k' (s, calls) = (fst (bind_io m k s), (snd (bind_io m k s), calls @ new)) \<and>
      outcome_logged (fst (bind_io m k s)) new"
  proof (cases r)
    case (Inl e)
    then show ?thesis
      using 1 o1 ms by (intro exI [of _ new1]) (simp add: bind_io_def outcome_logged_def)
  next
    case (Inr x)
    obtain new2 where 2: "k' x (s1, calls @ new1) =
        (fst (k x s1), (snd (k x s1), (calls @ new1) @ new2))"
      and o2: "outcome_logged (fst (k x s1)) new2"
      using k [of x] unfolding tracks_def by blast
    have "list_all succeeded new1"
      using o1 Inr by (simp add: outcome_logged_def)
    then have "outcome_logged (fst (k x s1)) (new1 @ new2)"
      using o2 by (rule outcome_logged_append)
    then show ?thesis
      using 1 2 Inr ms by (intro exI [of _ "new1 @ new2"]) (simp add: bind_io_def)
  qed
qed

lemma tracks_map_io:
  assumes "\<And>x. tracks (g' x) (g x)"
  shows "tracks (map_io g' xs) (map_io g xs)"
  by (induction xs) (auto intro!: tracks_return tracks_bind assms)

lemma tracks_exec: "tracks (exec (traced storage) query) (exec storage query)"
  unfolding tracks_def
proof (intro allI)
  fix s calls
  obtain r s1 where "storage query s = (r, s1)"
    by (cases "storage query s")
  then show "\<exists>new. exec (traced storage) query (s, calls) =
      (fst (exec storage query s), (snd (exec storage query s), calls @ new)) \<and>
      outcome_logged (fst (exec storage query s)) new"
    by (intro exI [of _ "[(query, r)]"])
      (simp add: exec_def traced_def outcome_logged_def split: sum.splits)
qed

lemma tracks_getStructure: "tracks (getStructure (traced storage)) (getStructure storage)"
  unfolding getStructure_def mkTable_def mkIndex_def Let_def
  by (intro tracks_bind tracks_map_io tracks_exec tracks_return)

lemma traced_run:
  assumes "getStructure (traced storage) (s, []) = (result, (s', calls))"
  shows "getStructure storage s = (result, s')" and "outcome_logged result calls"
proof -
  obtain new where "getStructure (traced storage) (s, []) =
      (fst (getStructure storage s), (snd (getStructure storage s), [] @ new))"
    and "outcome_logged (fst (getStructure storage s)) new"
    using tracks_getStructure [of storage] unfolding tracks_def by blast
  with assms show "getStructure storage s = (result, s')" and "outcome_logged result calls"
    by (simp_all add: prod_eq_iff)
qed

lemma table_list_query_distinct:
  "pragmaTableListQuery \<noteq> pragmaTableInfoQuery n s"
  "pragmaTableListQuery \<noteq> pragmaIndexListQuery n s"
  "pragmaTableListQuery \<noteq> pragmaIndexInfoQuery n s"
  by (simp_all add: pragmaTableListQuery_def pragmaTableInfoQuery_def pragmaIndexListQuery_def
      pragmaIndexInfoQuery_def sql_tag_def)

lemma failing_storage_simps:
  "failing_storage pragmaTableListQuery n = (Inr (select_table_list example_db), Suc n)"
  "failing_storage (pragmaIndexListQuery a b) n = (Inr (select_index_list example_db a b), Suc n)"
  "failing_storage (pragmaIndexInfoQuery a b) n = (Inr (select_index_info example_db a b), Suc n)"
  "failing_storage (pragmaTableInfoQuery (Some (Str ''t'')) (Some (Str ''main''))) n =
     (Inl ''disk I/O error'', Suc n)"
  using queries_distinct(1) [of "Some (Str ''t'')" "Some (Str ''main'')" a b]
    queries_distinct(2) [of "Some (Str ''t'')" "Some (Str ''main'')" a b]
  by (simp_all add: failing_storage_def table_list_query_distinct sqlite_simps eq_commute)

lemma failing_run:
  "getStructure (traced failing_storage) (0, []) = (Inl ''disk I/O error'', (4, failing_calls))"
  by (simp add: getStructure_def mkTable_def mkIndex_def exec_def traced_def bind_io_def
      return_io_def failing_storage_simps failing_calls_def example_select_table_list
      example_select_index_list example_select_index_info table_list_row_simps
      index_list_row_simps numeral_eq_Suc Let_def)

lemma outcome_logged_all:
  "outcome_logged result calls \<Longrightarrow> list_all succeeded calls = (\<exists>x. result = Inr x)"
proof (cases result)
  case (Inl e)
  assume "outcome_logged result calls"
  then have ne: "calls \<noteq> []" and l: "snd (last calls) = Inl e"
    using Inl by (simp_all add: outcome_logged_def)
  have "last calls \<in> set calls"
    using ne by simp
  moreover have "\<not> succeeded (last calls)"
    using l by (cases "last calls") simp
  ultimately have "\<not> list_all succeeded calls"
    unfolding list_all_iff by blast
  then show ?thesis
    using Inl by simp
next
  case (Inr x)
  assume "outcome_logged result calls"
  then show ?thesis
    using Inr by (simp add: outcome_logged_def)
qed

text \<open>
  C7. Run \<open>getStructure\<close> on any storage with its calls logged. The logging changes
  neither the result nor the final state. If a logged call threw an error \<open>e\<close>, then the
  result of \<open>getStructure\<close> is that error \<open>e\<close> and no Structure, the failed call is the
  last call made (nothing is retried, nothing is asked afterwards), and every call before
  it succeeded. A Structure is returned exactly when every call succeeded.
\<close>

theorem failure_aborts:
  assumes "getStructure (traced storage) (s, []) = (result, (s', calls))"
  shows "getStructure storage s = (result, s') \<and>
    (\<forall>q e. (q, Inl e) \<in> set calls \<longrightarrow>
       result = Inl e \<and> last calls = (q, Inl e) \<and> list_all succeeded (butlast calls)) \<and>
    list_all succeeded calls = (\<exists>ts. result = Inr ts)"
proof (intro conjI allI impI)
  show "getStructure storage s = (result, s')"
    using assms by (rule traced_run)
  have o: "outcome_logged result calls"
    using assms by (rule traced_run)
  then show "list_all succeeded calls = (\<exists>ts. result = Inr ts)"
    by (rule outcome_logged_all)
  fix q e assume mem: "(q, Inl e) \<in> set calls"
  have ns: "\<not> succeeded (q, Inl e)"
    by simp
  then have "\<not> list_all succeeded calls"
    using mem unfolding list_all_iff by blast
  then obtain e' where r: "result = Inl e'" and ne: "calls \<noteq> []"
    and bl: "list_all succeeded (butlast calls)" and l: "snd (last calls) = Inl e'"
    using o by (cases result) (auto simp: outcome_logged_def)
  have "(q, Inl e) \<notin> set (butlast calls)"
    using bl ns unfolding list_all_iff by blast
  moreover have "(q, Inl e) \<in> set (butlast calls @ [last calls])"
    using mem ne by simp
  ultimately have "last calls = (q, Inl e)"
    by (simp del: append_butlast_last_id)
  then show "result = Inl e" "last calls = (q, Inl e)" "list_all succeeded (butlast calls)"
    using r l bl by simp_all
qed

theorem failure_aborts_witness:
  "getStructure (traced failing_storage) (0, []) = (Inl ''disk I/O error'', (4, failing_calls)) \<and>
   getStructure failing_storage 0 = (Inl ''disk I/O error'', 4) \<and>
   (pragmaTableInfoQuery (Some (Str ''t'')) (Some (Str ''main'')), Inl ''disk I/O error'')
     \<in> set failing_calls \<and>
   last failing_calls =
     (pragmaTableInfoQuery (Some (Str ''t'')) (Some (Str ''main'')), Inl ''disk I/O error'') \<and>
   list_all succeeded (butlast failing_calls) \<and>
   \<not> list_all succeeded failing_calls \<and>
   length failing_calls = 4"
proof -
  have mem: "(pragmaTableInfoQuery (Some (Str ''t'')) (Some (Str ''main'')), Inl ''disk I/O error'')
     \<in> set failing_calls"
    by (simp add: failing_calls_def)
  have "length failing_calls = 4"
    by (simp add: failing_calls_def)
  then show ?thesis
    using failure_aborts [OF failing_run] mem failing_run by blast
qed

section \<open>Determinism\<close>

lemma getStructure_ref_first_call:
  "getStructure_ref (by_content storage) (pragmaTableListQuery, s) =
     getStructure storage (pragmaTableListQuery, s)"
proof -
  have "(\<lambda>query. by_content storage (NewObject query)) = storage"
    by (intro ext) (simp add: by_content_def)
  then show ?thesis
    by (simp add: getStructure_ref_def getStructure_def exec_def bind_io_def by_content_def)
qed



















end
